theory Spec2Isabelle
  imports Main
begin

section \<open>Python values used by the homogeneous collection serializers\<close>

text \<open>
  A Python \<open>str\<close> is a sequence of Unicode code points; it is modelled as the list of
  its code points, so that \<open>str.split()\<close> can be given Python's own notion of
  whitespace. \<open>str\<close> turns an ASCII literal into such a list.
\<close>

type_synonym py_str = "nat list"

definition str :: "string \<Rightarrow> py_str" where
  "str s = map of_char s"

text \<open>
  The code points for which Python's \<open>str.isspace\<close> holds; \<open>str.split()\<close> without
  arguments separates on exactly these.
\<close>

definition isspace :: "nat \<Rightarrow> bool" where
  "isspace c =
     ((9 \<le> c \<and> c \<le> 13) \<or> (28 \<le> c \<and> c \<le> 32) \<or> c = 133 \<or> c = 160 \<or> c = 5760 \<or>
      (8192 \<le> c \<and> c \<le> 8202) \<or> c = 8232 \<or> c = 8233 \<or> c = 8239 \<or> c = 8287 \<or>
      c = 12288)"

text \<open>\<open>sep.join(parts)\<close>.\<close>

fun py_join :: "py_str \<Rightarrow> py_str list \<Rightarrow> py_str" where
  "py_join sep [] = []"
| "py_join sep [x] = x"
| "py_join sep (x # y # ys) = x @ sep @ py_join sep (y # ys)"

text \<open>
  \<open>s.split()\<close>: one scan from left to right; \<open>cur\<close> is the word being read. A
  whitespace code point closes the current word when there is one and is dropped
  otherwise; the end of the string closes the last word.
\<close>

fun split_ws :: "py_str \<Rightarrow> py_str \<Rightarrow> py_str list" where
  "split_ws cur [] = (if cur = [] then [] else [cur])"
| "split_ws cur (c # cs) =
     (if isspace c then (if cur = [] then split_ws [] cs else cur # split_ws [] cs)
      else split_ws (cur @ [c]) cs)"

definition py_split :: "py_str \<Rightarrow> py_str list" where
  "py_split s = split_ws [] s"

text \<open>
  Type objects as \<open>isclass\<close> and \<open>issubclass\<close> see them: a class with the names of the
  classes in its method resolution order (itself included), or an object that is not a
  class, such as a \<open>typing\<close> alias. \<open>issubclass\<close> raises \<open>TypeError\<close> when its first
  argument is not a class.
\<close>

datatype py_type = PyClass "py_str list" | NotAClass py_str

datatype error =
    ModelFieldError py_str "py_str option" py_str
  | TypeError
  | AssertionError
  | IndexError

definition isclass :: "py_type \<Rightarrow> bool" where
  "isclass t = (case t of PyClass mro \<Rightarrow> True | NotAClass n \<Rightarrow> False)"

definition issubclass :: "py_type \<Rightarrow> py_str \<Rightarrow> error + bool" where
  "issubclass t c = (case t of PyClass mro \<Rightarrow> Inr (c \<in> set mro) | NotAClass n \<Rightarrow> Inl TypeError)"

definition BaseXmlModel :: py_str where
  "BaseXmlModel = str ''BaseXmlModel''"

definition tuple :: py_str where
  "tuple = str ''tuple''"

section \<open>Field descriptors, locations and contexts\<close>

datatype Location = ELEMENT | ATTRIBUTE | MISSING

datatype PydanticShapeType = HOMOGENEOUS | HETEROGENEOUS | OTHER_SHAPE

type_synonym NsMap = "(py_str \<times> py_str) list"

text \<open>
  \<open>pd.fields.ModelField\<close>, with the attributes the factory reads. \<open>field_info\<close> is
  opaque here: only \<open>_get_entity_info\<close> looks into it.
\<close>

datatype 'i ModelField = ModelField
  (field_name: "py_str option")
  (field_alias: py_str)
  (field_type: py_type)
  (field_shape: int)
  (field_info: 'i)
  (sub_fields: "'i ModelField list option")

text \<open>A model class: \<open>__name__\<close> and \<open>__custom_root_type__\<close>.\<close>

record ModelClass =
  model_name :: py_str
  custom_root_type :: bool

record Context =
  parent_is_root :: bool
  parent_ns :: "py_str option"
  parent_nsmap :: "NsMap option"

text \<open>
  The collaborators that the factory calls and that live outside this module:
  \<open>PydanticShapeType.from_shape\<close>, \<open>Serializer._get_entity_info\<close>, \<open>merge_nsmaps\<close>,
  \<open>QName.from_alias(...).uri\<close> and \<open>Serializer._build_field_serializer\<close>. They are
  parameters of the model; \<open>'s\<close> is the type of the serializers the generic builder
  returns.
\<close>

record ('i, 's) externals =
  from_shape :: "int \<Rightarrow> PydanticShapeType"
  get_entity_info :: "'i ModelField \<Rightarrow> py_str option \<times> py_str option \<times> NsMap option"
  merge_nsmaps :: "NsMap option \<Rightarrow> NsMap option \<Rightarrow> NsMap"
  qname_uri :: "py_str \<Rightarrow> py_str option \<Rightarrow> NsMap option \<Rightarrow> bool \<Rightarrow> py_str"
  build_field_serializer :: "ModelClass \<Rightarrow> 'i ModelField \<Rightarrow> Context \<Rightarrow> error + 's"

datatype 's Serializer =
    TextSerializer
  | AttributeSerializer py_str
  | ElementSerializer py_str 's

section \<open>Construction\<close>

definition inline_msg :: py_str where
  "inline_msg = str ''Inline list value should be of scalar type''"

definition nested_msg :: py_str where
  "nested_msg = str ''collection elements can'' @ [39] @ str ''t be of collection type''"

definition root_msg :: py_str where
  "root_msg = str ''root model collections should be marked as elements''"

text \<open>\<open>x or y\<close> on optional strings: \<open>None\<close> and the empty string are falsy.\<close>

definition str_or :: "py_str option \<Rightarrow> py_str option \<Rightarrow> py_str option" where
  "str_or x y = (case x of None \<Rightarrow> y | Some s \<Rightarrow> if s = [] then y else Some s)"

text \<open>
  \<open>TextSerializer.__init__\<close>. The guard is
  \<open>isclass(t) and issubclass(t, BaseXmlModel) or issubclass(t, tuple)\<close>, which Python
  reads as \<open>(isclass(t) and issubclass(t, BaseXmlModel)) or issubclass(t, tuple)\<close>.
\<close>

definition TextSerializer_init ::
  "ModelClass \<Rightarrow> 'i ModelField \<Rightarrow> Context \<Rightarrow> error + 's Serializer" where
  "TextSerializer_init model model_field ctx =
     (case sub_fields model_field of
        None \<Rightarrow> Inl AssertionError
      | Some sfs \<Rightarrow>
          if length sfs = 1 then
            (case (if isclass (field_type model_field)
                   then issubclass (field_type model_field) BaseXmlModel
                   else Inr False) of
               Inl e \<Rightarrow> Inl e
             | Inr is_model \<Rightarrow>
                 (case (if is_model then Inr True
                        else issubclass (field_type model_field) tuple) of
                    Inl e \<Rightarrow> Inl e
                  | Inr reject \<Rightarrow>
                      if reject
                      then Inl (ModelFieldError (model_name model) (field_name model_field) inline_msg)
                      else Inr TextSerializer))
          else Inl AssertionError)"

text \<open>\<open>AttributeSerializer.__init__\<close>.\<close>

definition AttributeSerializer_init ::
  "('i, 's) externals \<Rightarrow> ModelClass \<Rightarrow> 'i ModelField \<Rightarrow> Context \<Rightarrow> error + 's Serializer" where
  "AttributeSerializer_init ext model model_field ctx =
     (case sub_fields model_field of
        None \<Rightarrow> Inl AssertionError
      | Some sfs \<Rightarrow>
          if length sfs = 1 then
            (case issubclass (field_type model_field) BaseXmlModel of
               Inl e \<Rightarrow> Inl e
             | Inr is_model \<Rightarrow>
                 if is_model
                 then Inl (ModelFieldError (model_name model) (field_name model_field) inline_msg)
                 else
                   (case get_entity_info ext model_field of
                      (uu, ns, nsmap) \<Rightarrow>
                        (case field_name model_field of
                           None \<Rightarrow> Inl AssertionError
                         | Some n \<Rightarrow> Inr (AttributeSerializer (qname_uri ext n ns nsmap True)))))
          else Inl AssertionError)"

text \<open>
  \<open>ElementSerializer.__init__\<close>. The item field is a copy of the only sub-field that
  carries the name, alias and field info of the collection field; the inner serializer
  is built for it in a context derived from \<open>ctx\<close>.
\<close>

definition ElementSerializer_init ::
  "('i, 's) externals \<Rightarrow> ModelClass \<Rightarrow> 'i ModelField \<Rightarrow> Context \<Rightarrow> error + 's Serializer" where
  "ElementSerializer_init ext model model_field ctx =
     (case sub_fields model_field of
        None \<Rightarrow> Inl AssertionError
      | Some sfs \<Rightarrow>
          (case get_entity_info ext model_field of
             (name0, ns0, nsmap0) \<Rightarrow>
               (let name1 = (case str_or name0 (Some (field_alias model_field)) of
                               None \<Rightarrow> field_alias model_field | Some n \<Rightarrow> n);
                    ns = str_or ns0 (parent_ns ctx);
                    nsmap = merge_nsmaps ext nsmap0 (parent_nsmap ctx);
                    element_name = qname_uri ext name1 ns (Some nsmap) False
                in (case sfs of
                      [] \<Rightarrow> Inl IndexError
                    | sf # rest \<Rightarrow>
                        (case build_field_serializer ext model
                                (ModelField (field_name model_field) (field_alias model_field)
                                   (field_type sf) (field_shape sf) (field_info model_field)
                                   (sub_fields sf))
                                (ctx\<lparr>parent_is_root := False, parent_ns := ns,
                                     parent_nsmap := Some nsmap\<rparr>) of
                           Inl e \<Rightarrow> Inl e
                         | Inr inner \<Rightarrow> Inr (ElementSerializer element_name inner))))))"

text \<open>
  \<open>HomogeneousSerializerFactory.build\<close>. The last branch of the source
  (\<open>AssertionError("unreachable")\<close>) has no counterpart: \<open>Location\<close> has three members.
\<close>

definition build ::
  "('i, 's) externals \<Rightarrow> ModelClass \<Rightarrow> 'i ModelField \<Rightarrow> Location \<Rightarrow> Context \<Rightarrow>
     error + 's Serializer" where
  "build ext model model_field field_location ctx =
     (case sub_fields model_field of
        None \<Rightarrow> Inl AssertionError
      | Some sfs \<Rightarrow>
          (case sfs of
             [item_field] \<Rightarrow>
               (let is_root = custom_root_type model in
                if from_shape ext (field_shape item_field) \<in> {HOMOGENEOUS, HETEROGENEOUS}
                then Inl (ModelFieldError (model_name model) (field_name model_field) nested_msg)
                else if is_root \<and> field_location = MISSING
                then Inl (ModelFieldError (model_name model) (field_name model_field) root_msg)
                else (case field_location of
                        ELEMENT \<Rightarrow> ElementSerializer_init ext model model_field ctx
                      | MISSING \<Rightarrow> TextSerializer_init model model_field ctx
                      | ATTRIBUTE \<Rightarrow> AttributeSerializer_init ext model model_field ctx))
           | _ \<Rightarrow> Inl AssertionError))"

section \<open>The tree node\<close>

text \<open>Modelled from the spec: the tree node of \<open>pydantic_xml.element\<close>
  (\<open>XmlElementReader\<close>, \<open>XmlElementWriter\<close>), which is not part of this module. A node
  has a tag, an optional text, attributes by qualified name and children in document
  order.
\<close>

datatype node = Node
  (node_tag: py_str)
  (node_text: "py_str option")
  (node_attrib: "py_str \<Rightarrow> py_str option")
  (node_children: "node list")

text \<open>Modelled from the spec: \<open>setText(string)\<close> overwrites the text content.\<close>

definition set_text :: "py_str \<Rightarrow> node \<Rightarrow> node" where
  "set_text s n = Node (node_tag n) (Some s) (node_attrib n) (node_children n)"

text \<open>Modelled from the spec: \<open>popText() -> optional string\<close> removes the text and returns
  it.
\<close>

definition pop_text :: "node \<Rightarrow> py_str option \<times> node" where
  "pop_text n = (node_text n, Node (node_tag n) None (node_attrib n) (node_children n))"

text \<open>Modelled from the spec: \<open>setAttribute(qname, string)\<close> writes the attribute,
  overwriting a previous value.
\<close>

definition set_attribute :: "py_str \<Rightarrow> py_str \<Rightarrow> node \<Rightarrow> node" where
  "set_attribute k v n =
     Node (node_tag n) (node_text n) ((node_attrib n)(k := Some v)) (node_children n)"

text \<open>Modelled from the spec: \<open>popAttribute(qname) -> optional string\<close> removes the
  attribute and returns its value.
\<close>

definition pop_attrib :: "py_str \<Rightarrow> node \<Rightarrow> py_str option \<times> node" where
  "pop_attrib k n =
     (node_attrib n k,
      Node (node_tag n) (node_text n) ((node_attrib n)(k := None)) (node_children n))"

text \<open>Modelled from the spec: a writer appends a new child after the existing ones.\<close>

definition append_element :: "node \<Rightarrow> node \<Rightarrow> node" where
  "append_element child n =
     Node (node_tag n) (node_text n) (node_attrib n) (node_children n @ [child])"

text \<open>Modelled from the spec: "find and remove next matching child by tag". The next
  remaining child is removed and returned when its tag matches; the search stops at a
  child with another tag (the spec's contiguous run policy).
\<close>

definition pop_element :: "py_str \<Rightarrow> node \<Rightarrow> node option \<times> node" where
  "pop_element t n =
     (case node_children n of
        [] \<Rightarrow> (None, n)
      | c # cs \<Rightarrow>
          if node_tag c = t
          then (Some c, Node (node_tag n) (node_text n) (node_attrib n) cs)
          else (None, n))"

definition empty_node :: "py_str \<Rightarrow> node" where
  "empty_node t = Node t None (\<lambda>k. None) []"

section \<open>The Text variant\<close>

definition TextSerializer_serialize ::
  "node \<Rightarrow> 'v list option \<Rightarrow> ('v \<Rightarrow> py_str) \<Rightarrow> bool \<Rightarrow> node" where
  "TextSerializer_serialize element val encoder skip_empty =
     (case val of
        None \<Rightarrow> element
      | Some vs \<Rightarrow>
          if skip_empty \<and> length vs = 0 then element
          else set_text (py_join (str '' '') (map encoder vs)) element)"

definition TextSerializer_deserialize :: "node option \<Rightarrow> py_str list option \<times> node option" where
  "TextSerializer_deserialize element =
     (case element of
        None \<Rightarrow> (None, None)
      | Some e \<Rightarrow>
          (case pop_text e of
             (None, e') \<Rightarrow> (Some [], Some e')
           | (Some t, e') \<Rightarrow> (Some (py_split t), Some e')))"

section \<open>The Attribute variant\<close>

definition AttributeSerializer_serialize ::
  "py_str \<Rightarrow> node \<Rightarrow> 'v list option \<Rightarrow> ('v \<Rightarrow> py_str) \<Rightarrow> bool \<Rightarrow> node" where
  "AttributeSerializer_serialize attr_name element val encoder skip_empty =
     (case val of
        None \<Rightarrow> element
      | Some vs \<Rightarrow>
          if skip_empty \<and> length vs = 0 then element
          else set_attribute attr_name (py_join (str '' '') (map encoder vs)) element)"

definition AttributeSerializer_deserialize ::
  "py_str \<Rightarrow> node option \<Rightarrow> py_str list option \<times> node option" where
  "AttributeSerializer_deserialize attr_name element =
     (case element of
        None \<Rightarrow> (None, None)
      | Some e \<Rightarrow>
          (case pop_attrib attr_name e of
             (None, e') \<Rightarrow> (Some [], Some e')
           | (Some a, e') \<Rightarrow> (Some (py_split a), Some e')))"

section \<open>The Element variant\<close>

text \<open>
  The inner serializer comes from the generic builder; its two methods are parameters.
  \<open>inner_serialize element val encoder skip_empty\<close> is the node after the call (the
  source ignores what the call returns), and \<open>inner_deserialize element\<close> is the decoded
  value, if any, with the node after the call. The elements of the collection are
  optional: \<open>None\<close> is Python's \<open>None\<close>.
\<close>

fun serialize_loop ::
  "('n \<Rightarrow> 'v option \<Rightarrow> 'e \<Rightarrow> bool \<Rightarrow> 'n) \<Rightarrow> 'n \<Rightarrow> 'v option list \<Rightarrow> 'e \<Rightarrow> bool \<Rightarrow> 'n" where
  "serialize_loop inner_serialize element [] encoder skip_empty = element"
| "serialize_loop inner_serialize element (v # vs) encoder skip_empty =
     (if skip_empty \<and> v = None
      then serialize_loop inner_serialize element vs encoder skip_empty
      else serialize_loop inner_serialize (inner_serialize element v encoder skip_empty) vs
             encoder skip_empty)"

definition ElementSerializer_serialize ::
  "('n \<Rightarrow> 'v option \<Rightarrow> 'e \<Rightarrow> bool \<Rightarrow> 'n) \<Rightarrow> 'n \<Rightarrow> 'v option list option \<Rightarrow> 'e \<Rightarrow> bool \<Rightarrow> 'n" where
  "ElementSerializer_serialize inner_serialize element val encoder skip_empty =
     (case val of
        None \<Rightarrow> element
      | Some vs \<Rightarrow>
          if skip_empty \<and> length vs = 0 then element
          else serialize_loop inner_serialize element vs encoder skip_empty)"

text \<open>
  The \<open>while\<close> loop of \<open>ElementSerializer.deserialize\<close>. It runs for as long as the inner
  serializer returns values, so it is a partial function: \<open>None\<close> stands for a loop that
  never ends.
\<close>

partial_function (option) deserialize_loop ::
  "('n \<Rightarrow> 'v option \<times> 'n) \<Rightarrow> 'n \<Rightarrow> 'v list \<Rightarrow> ('v list \<times> 'n) option" where
  "deserialize_loop inner_deserialize element result =
     (case inner_deserialize element of
        (None, element') \<Rightarrow> Some (result, element')
      | (Some v, element') \<Rightarrow> deserialize_loop inner_deserialize element' (result @ [v]))"

text \<open>\<open>result or None\<close>: the empty list is falsy.\<close>

definition list_or_None :: "'v list \<Rightarrow> 'v list option" where
  "list_or_None result = (if result = [] then None else Some result)"

definition ElementSerializer_deserialize ::
  "('n \<Rightarrow> 'v option \<times> 'n) \<Rightarrow> 'n option \<Rightarrow> ('v list option \<times> 'n option) option" where
  "ElementSerializer_deserialize inner_deserialize element =
     (case element of
        None \<Rightarrow> Some (None, None)
      | Some e \<Rightarrow>
          (case deserialize_loop inner_deserialize e [] of
             None \<Rightarrow> None
           | Some (result, e') \<Rightarrow> Some (list_or_None result, Some e')))"

text \<open>
  \<open>returns_then_absent inner_deserialize e vs e'\<close>: called again and again from the node
  \<open>e\<close>, the inner serializer returns the values \<open>vs\<close> one after the other and then an
  absent result, leaving the node \<open>e'\<close>.
\<close>

fun returns_then_absent :: "('n \<Rightarrow> 'v option \<times> 'n) \<Rightarrow> 'n \<Rightarrow> 'v list \<Rightarrow> 'n \<Rightarrow> bool" where
  "returns_then_absent inner_deserialize e [] e' = (inner_deserialize e = (None, e'))"
| "returns_then_absent inner_deserialize e (v # vs) e' =
     (case inner_deserialize e of
        (None, e1) \<Rightarrow> False
      | (Some w, e1) \<Rightarrow> w = v \<and> returns_then_absent inner_deserialize e1 vs e')"

text \<open>Modelled from the spec: \<open>serialize\<close> of the serializer that the generic builder
  returns for a scalar item mapped to an element, which is not part of this module.
  Each call "is expected to append one new child with the resolved tag", here with the
  encoded value as its text. The value is handed to the encoder as it comes. The spec
  does not say what is written for a value whose encoded text is empty; the model takes
  the reading in which an empty text is no value, and appends no child for it when
  \<open>skip_empty\<close> holds. The statements below are about values whose encoded text is not
  empty.
\<close>

definition scalar_element_serialize ::
  "py_str \<Rightarrow> node \<Rightarrow> 'a \<Rightarrow> ('a \<Rightarrow> py_str) \<Rightarrow> bool \<Rightarrow> node" where
  "scalar_element_serialize t element val encoder skip_empty =
     (let encoded = encoder val
      in if skip_empty \<and> length encoded = 0 then element
         else append_element (Node t (Some encoded) (\<lambda>k. None) []) element)"

text \<open>Modelled from the spec: \<open>deserialize\<close> of the same serializer. Each call "must
  consume (remove) at most one matching child and return its decoded value, or return
  absent when no more matching children remain". The spec does not say what the value
  of a child without text or with an empty text is; in the same reading the model
  returns absent for such a child, which is removed all the same.
\<close>

definition scalar_element_deserialize :: "py_str \<Rightarrow> node \<Rightarrow> py_str option \<times> node" where
  "scalar_element_deserialize t element =
     (case pop_element t element of
        (None, e') \<Rightarrow> (None, e')
      | (Some child, e') \<Rightarrow>
          (case fst (pop_text child) of
             None \<Rightarrow> (None, e')
           | Some s \<Rightarrow> if s = [] then (None, e') else (Some s, e')))"

section \<open>Notions used in the statements\<close>

text \<open>A word: a non-empty string without whitespace.\<close>

definition word :: "py_str \<Rightarrow> bool" where
  "word w = (w \<noteq> [] \<and> list_all (\<lambda>c. \<not> isspace c) w)"

text \<open>The child with tag \<open>t\<close> and text \<open>s\<close>, without attributes or children.\<close>

definition item :: "py_str \<Rightarrow> py_str \<Rightarrow> node" where
  "item t s = Node t (Some s) (\<lambda>k. None) []"

text \<open>
  An instance of the collaborators, a model class, a collection field and a context, on
  which the factory is evaluated below. The shape codes 2 and 5 stand for a list and a
  tuple; the field \<open>items\<close> has one sub-field with the item type \<open>t\<close> and the shape
  \<open>item_shape\<close>.
\<close>

definition example_externals :: "(unit, unit) externals" where
  "example_externals =
     \<lparr>from_shape = (\<lambda>s. if s = 2 then HOMOGENEOUS else if s = 5 then HETEROGENEOUS else OTHER_SHAPE),
      get_entity_info = (\<lambda>f. (None, None, None)),
      merge_nsmaps = (\<lambda>a b. []),
      qname_uri = (\<lambda>t ns nsmap is_attr. t),
      build_field_serializer = (\<lambda>m f c. Inr ())\<rparr>"

definition example_model :: "bool \<Rightarrow> ModelClass" where
  "example_model is_root = \<lparr>model_name = str ''Model'', custom_root_type = is_root\<rparr>"

definition example_field :: "py_type \<Rightarrow> int \<Rightarrow> unit ModelField" where
  "example_field t item_shape =
     ModelField (Some (str ''items'')) (str ''items'') t 2 ()
       (Some [ModelField (Some (str ''_items'')) (str ''_items'') t item_shape () None])"

definition example_ctx :: Context where
  "example_ctx = \<lparr>parent_is_root = False, parent_ns = None, parent_nsmap = None\<rparr>"

section \<open>Splitting on whitespace\<close>

lemma split_ws_word:
  "list_all (\<lambda>c. \<not> isspace c) w \<Longrightarrow> split_ws cur (w @ t) = split_ws (cur @ w) t"
  by (induction w arbitrary: cur) auto

lemma split_ws_spaces:
  "list_all isspace s \<Longrightarrow> split_ws [] (s @ t) = split_ws [] t"
  by (induction s) auto

lemma split_ws_close:
  "list_all isspace s \<Longrightarrow> s \<noteq> [] \<Longrightarrow> cur \<noteq> [] \<Longrightarrow> split_ws cur (s @ t) = cur # split_ws [] t"
  by (cases s) (auto simp: split_ws_spaces)

lemma py_split_leading:
  "list_all isspace s \<Longrightarrow> py_split (s @ t) = py_split t"
  by (simp add: py_split_def split_ws_spaces)

lemma py_split_word_sep:
  assumes "w \<noteq> []" "list_all (\<lambda>c. \<not> isspace c) w" "s \<noteq> []" "list_all isspace s"
  shows "py_split (w @ s @ t) = w # py_split t"
  using assms by (simp add: py_split_def split_ws_word split_ws_close)

lemma py_split_last_word:
  assumes "w \<noteq> []" "list_all (\<lambda>c. \<not> isspace c) w" "list_all isspace s"
  shows "py_split (w @ s) = [w]"
proof (cases s)
  case Nil
  then show ?thesis using assms split_ws_word[of w "[]" "[]"] by (simp add: py_split_def)
next
  case (Cons a list)
  then show ?thesis using assms py_split_word_sep[of w s "[]"] by (simp add: py_split_def)
qed

lemma py_split_only_spaces: "list_all isspace s \<Longrightarrow> py_split s = []"
  using py_split_leading[of s "[]"] by (simp add: py_split_def)

lemma py_split_join:
  "list_all word ws \<Longrightarrow> py_split (py_join (str '' '') ws) = ws"
proof (induction ws)
  case Nil
  then show ?case by (simp add: py_split_def)
next
  case (Cons x xs)
  have sp: "list_all isspace (str '' '')" "str '' '' \<noteq> []"
    by (simp_all add: str_def isspace_def)
  from Cons.prems have xs: "list_all word xs" and "word x"
    by simp_all
  then have x: "x \<noteq> []" "list_all (\<lambda>c. \<not> isspace c) x"
    by (simp_all add: word_def)
  show ?case
  proof (cases xs)
    case Nil
    then show ?thesis using py_split_last_word[OF x, of "[]"] by simp
  next
    case (Cons y ys)
    then have "py_join (str '' '') (x # xs) = x @ str '' '' @ py_join (str '' '') xs"
      by simp
    then show ?thesis
      using py_split_word_sep[OF x sp(2) sp(1)] Cons.IH[OF xs] by simp
  qed
qed

lemma py_split_separated:
  assumes "length seps = length ws" "list_all word ws" "list_all (list_all isspace) seps"
    "list_all (\<lambda>s. s \<noteq> []) (tl seps)" "list_all isspace trail"
  shows "py_split (concat (map2 (@) seps ws) @ trail) = ws"
  using assms
proof (induction ws arbitrary: seps)
  case Nil
  then show ?case by (simp add: py_split_only_spaces)
next
  case (Cons w ws)
  then obtain s seps' where seps: "seps = s # seps'" by (cases seps) auto
  from Cons.prems seps have s: "list_all isspace s" and ww: "word w"
    and len: "length seps' = length ws" and ws: "list_all word ws"
    and sp: "list_all (list_all isspace) seps'" and ne: "list_all (\<lambda>s. s \<noteq> []) seps'"
    by simp_all
  from ww have w: "w \<noteq> []" "list_all (\<lambda>c. \<not> isspace c) w"
    by (simp_all add: word_def)
  have step: "py_split (concat (map2 (@) seps (w # ws)) @ trail) =
      py_split (w @ concat (map2 (@) seps' ws) @ trail)"
    using seps py_split_leading[OF s] by simp
  show ?case
  proof (cases ws)
    case Nil
    then show ?thesis using step py_split_last_word[OF w Cons.prems(5)] by simp
  next
    case (Cons w' ws')
    then obtain s' seps'' where seps': "seps' = s' # seps''" using len by (cases seps') auto
    from sp ne seps' have s': "s' \<noteq> []" "list_all isspace s'" and ne': "list_all (\<lambda>s. s \<noteq> []) (tl seps')"
      by simp_all
    let ?rest = "concat (map2 (@) seps'' ws') @ trail"
    have ih: "py_split (concat (map2 (@) seps' ws) @ trail) = ws"
      using Cons.IH[OF len ws sp ne' Cons.prems(5)] .
    have "py_split (w @ s' @ (w' @ ?rest)) = w # py_split (w' @ ?rest)"
      by (rule py_split_word_sep[OF w s'])
    moreover have "py_split (w' @ ?rest) = py_split (s' @ w' @ ?rest)"
      using py_split_leading[OF s'(2)] by simp
    ultimately show ?thesis using step ih seps' Cons by simp
  qed
qed

section \<open>The loops of the Element variant\<close>

lemma deserialize_loop_returns:
  "returns_then_absent inner e vs e' \<Longrightarrow> deserialize_loop inner e acc = Some (acc @ vs, e')"
proof (induction vs arbitrary: e acc)
  case Nil
  then show ?case by (subst deserialize_loop.simps) simp
next
  case (Cons v vs)
  from Cons.prems obtain e1 where 1: "inner e = (Some v, e1)" and 2: "returns_then_absent inner e1 vs e'"
    by (auto split: prod.splits option.splits)
  show ?case using Cons.IH[OF 2, of "acc @ [v]"] 1 by (subst deserialize_loop.simps) simp
qed

lemma returns_then_absent_items:
  "list_all (\<lambda>x. x \<noteq> []) xs \<Longrightarrow>
   (case rest of [] \<Rightarrow> True | c # cs \<Rightarrow> node_tag c \<noteq> t) \<Longrightarrow>
   returns_then_absent (scalar_element_deserialize t)
     (Node g tx at (map (item t) xs @ rest)) xs (Node g tx at rest)"
  by (induction xs)
     (auto simp: scalar_element_deserialize_def pop_element_def pop_text_def item_def
       split: list.splits)

lemma serialize_loop_foldl:
  "serialize_loop inner e vs enc skip =
   foldl (\<lambda>n v. inner n v enc skip) e (filter (\<lambda>v. \<not> (skip \<and> v = None)) vs)"
  by (induction vs arbitrary: e) auto

lemma ElementSerializer_serialize_foldl:
  "ElementSerializer_serialize inner e (Some vs) enc skip =
   foldl (\<lambda>n v. inner n v enc skip) e (filter (\<lambda>v. \<not> (skip \<and> v = None)) vs)"
  by (cases vs) (simp_all add: ElementSerializer_serialize_def serialize_loop_foldl)

lemma foldl_scalar_element_serialize:
  "list_all (\<lambda>x. \<not> (skip \<and> enc (Some x) = [])) xs \<Longrightarrow>
   foldl (\<lambda>n v. scalar_element_serialize t n v enc skip) (Node g tx at cs) (map Some xs) =
   Node g tx at (cs @ map (\<lambda>x. item t (enc (Some x))) xs)"
  by (induction xs arbitrary: cs)
     (auto simp: scalar_element_serialize_def append_element_def item_def)

lemma ElementSerializer_serialize_items:
  assumes "list_all (\<lambda>x. \<not> (skip \<and> enc (Some x) = [])) xs"
  shows "ElementSerializer_serialize (scalar_element_serialize t) (Node g tx at cs)
           (Some (map Some xs)) enc skip =
         Node g tx at (cs @ map (\<lambda>x. item t (enc (Some x))) xs)"
proof -
  have "filter (\<lambda>v. \<not> (skip \<and> v = None)) (map Some xs) = map Some xs"
    by (induction xs) simp_all
  then show ?thesis
    using foldl_scalar_element_serialize [OF assms]
    by (simp add: ElementSerializer_serialize_foldl)
qed

lemma element_round_trip:
  assumes "xs \<noteq> []" and "list_all (\<lambda>x. enc (Some x) \<noteq> []) xs"
  shows "ElementSerializer_deserialize (scalar_element_deserialize t)
           (Some (ElementSerializer_serialize (scalar_element_serialize t) (Node g tx at [])
              (Some (map Some xs)) enc skip)) =
         Some (Some (map (\<lambda>x. enc (Some x)) xs), Some (Node g tx at []))"
proof -
  let ?ys = "map (\<lambda>x. enc (Some x)) xs"
  from assms(2) have ne: "list_all (\<lambda>y. y \<noteq> []) ?ys"
    by (induction xs) simp_all
  from assms(2) have wr: "list_all (\<lambda>x. \<not> (skip \<and> enc (Some x) = [])) xs"
    by (induction xs) simp_all
  have "returns_then_absent (scalar_element_deserialize t)
          (Node g tx at (map (item t) ?ys @ [])) ?ys (Node g tx at [])"
    by (rule returns_then_absent_items [OF ne]) simp
  then have "deserialize_loop (scalar_element_deserialize t)
          (Node g tx at (map (\<lambda>x. item t (enc (Some x))) xs)) [] = Some (?ys, Node g tx at [])"
    using deserialize_loop_returns [of "scalar_element_deserialize t" _ ?ys _ "[]"]
    by (simp add: comp_def)
  with assms(1) show ?thesis
    by (simp add: ElementSerializer_serialize_items [OF wr] ElementSerializer_deserialize_def
        list_or_None_def)
qed

section \<open>The factory\<close>


text \<open>
  Claim C1. For a collection field with exactly one item sub-field whose shape
  \<open>from_shape\<close> classifies as \<open>HOMOGENEOUS\<close> or \<open>HETEROGENEOUS\<close>, \<open>build\<close> raises the
  \<open>ModelFieldError\<close> with the name of the model, the name of the field and the message
  "collection elements can't be of collection type". This holds for every location and
  for all collaborators, so no variant is constructed before the error: the result does
  not depend on what the constructors or the generic builder would do.
\<close>

theorem build_rejects_nested_collection:
  assumes "sub_fields model_field = Some [item_field]"
    and "from_shape ext (field_shape item_field) = HOMOGENEOUS \<or>
         from_shape ext (field_shape item_field) = HETEROGENEOUS"
  shows "build ext model model_field field_location ctx =
         Inl (ModelFieldError (model_name model) (field_name model_field) nested_msg)"
  using assms by (auto simp: build_def)

theorem build_rejects_nested_collection_witness:
  "build example_externals (example_model False) (example_field (PyClass [str ''int'']) 5)
     ELEMENT example_ctx =
   Inl (ModelFieldError (str ''Model'') (Some (str ''items'')) nested_msg)"
  using build_rejects_nested_collection [of "example_field (PyClass [str ''int'']) 5"
      "ModelField (Some (str ''_items'')) (str ''_items'') (PyClass [str ''int'']) 5 () None"
      example_externals "example_model False" ELEMENT example_ctx]
  by (simp add: example_field_def example_externals_def example_model_def)




section \<open>The constructors of the inline variants\<close>

text \<open>
  Claim C3. The Attribute variant is claimed to reject the same item types as the Text
  variant. For an item type that is a class derived from \<open>tuple\<close>, the constructor of
  the Attribute variant returns a serializer, where the constructor of the Text
  variant raises the \<open>ModelFieldError\<close> "Inline list value should be of scalar type":
  \<open>AttributeSerializer.__init__\<close> has no test for \<open>tuple\<close>.
\<close>

theorem attribute_init_accepts_tuple_item:
  "AttributeSerializer_init example_externals (example_model False)
     (example_field (PyClass [str ''Point'', str ''tuple'', str ''object'']) 1) example_ctx =
     Inr (AttributeSerializer (str ''items'')) \<and>
   (TextSerializer_init (example_model False)
     (example_field (PyClass [str ''Point'', str ''tuple'', str ''object'']) 1) example_ctx
      :: error + unit Serializer) =
     Inl (ModelFieldError (str ''Model'') (Some (str ''items'')) inline_msg)"
  by (simp add: AttributeSerializer_init_def TextSerializer_init_def example_field_def
      example_externals_def example_model_def issubclass_def isclass_def BaseXmlModel_def
      tuple_def str_def)

text \<open>
  Claim C10. When the item type is not a class (a \<open>typing\<close> alias such as
  \<open>Optional[int]\<close>), the guard of \<open>TextSerializer.__init__\<close> skips the class test and
  evaluates \<open>issubclass(type_, tuple)\<close>, which raises \<open>TypeError\<close>: the constructor neither
  accepts the field nor raises the \<open>ModelFieldError\<close>.
\<close>

theorem text_init_type_error_on_non_class:
  assumes "sub_fields model_field = Some [item_field]"
    and "field_type model_field = NotAClass n"
  shows "\<not> isclass (field_type model_field) \<and>
         TextSerializer_init model model_field ctx = Inl TypeError"
  using assms by (simp add: TextSerializer_init_def isclass_def issubclass_def)

theorem text_init_type_error_on_non_class_witness:
  "\<not> isclass (NotAClass (str ''Optional[int]'')) \<and>
   (TextSerializer_init (example_model False)
      (example_field (NotAClass (str ''Optional[int]'')) 1) example_ctx
      :: error + unit Serializer) = Inl TypeError"
  using text_init_type_error_on_non_class [of "example_field (NotAClass (str ''Optional[int]'')) 1"
      "ModelField (Some (str ''_items'')) (str ''_items'') (NotAClass (str ''Optional[int]'')) 1 () None"
      "str ''Optional[int]''" "example_model False" example_ctx]
  by (simp add: example_field_def)

section \<open>Serializing and deserializing\<close>

text \<open>
  Claim C4 as stated fails for the Text variant on the sequence with the single string
  "a b": the text written is "a b", and it is read back as the two strings "a" and "b".
\<close>

theorem text_round_trip_counterexample:
  "fst (TextSerializer_deserialize (Some (TextSerializer_serialize (empty_node (str ''r''))
     (Some [str ''a b'']) (\<lambda>v. v) False))) = Some [str ''a'', str ''b''] \<and>
   fst (TextSerializer_deserialize (Some (TextSerializer_serialize (empty_node (str ''r''))
     (Some [str ''a b'']) (\<lambda>v. v) False))) \<noteq> Some [str ''a b'']"
  by (simp add: TextSerializer_deserialize_def TextSerializer_serialize_def set_text_def
      pop_text_def py_split_def isspace_def str_def)

text \<open>
  Claim C4, amended. With \<open>skip_empty\<close> false and an encoder that gives each string as
  it is, deserializing what \<open>serialize\<close> wrote yields the sequence \<open>S\<close> itself: for the
  Text and Attribute variants when every string of \<open>S\<close> is a word (non-empty and without
  whitespace), on any node; for the Element variant over the scalar element serializer
  when \<open>S\<close> is not empty and none of its strings is empty, on an empty node.
\<close>

theorem round_trip_words:
  "(list_all word S \<longrightarrow>
      fst (TextSerializer_deserialize (Some (TextSerializer_serialize e (Some S) (\<lambda>v. v) False)))
        = Some S) \<and>
   (list_all word S \<longrightarrow>
      fst (AttributeSerializer_deserialize attr_name
             (Some (AttributeSerializer_serialize attr_name e (Some S) (\<lambda>v. v) False)))
        = Some S) \<and>
   (S \<noteq> [] \<and> list_all (\<lambda>s. s \<noteq> []) S \<and> list_all (\<lambda>s. enc (Some s) = s) S \<longrightarrow>
      map_option fst (ElementSerializer_deserialize (scalar_element_deserialize t)
        (Some (ElementSerializer_serialize (scalar_element_serialize t) (empty_node r)
           (Some (map Some S)) enc False)))
        = Some (Some S))"
proof -
  have el: "map_option fst (ElementSerializer_deserialize (scalar_element_deserialize t)
        (Some (ElementSerializer_serialize (scalar_element_serialize t) (empty_node r)
           (Some (map Some S)) enc False))) = Some (Some S)"
    if "S \<noteq> []" "list_all (\<lambda>s. s \<noteq> []) S" "list_all (\<lambda>s. enc (Some s) = s) S"
  proof -
    from that(3) have same: "map (\<lambda>s. enc (Some s)) S = S"
      by (induction S) simp_all
    from that(2,3) have "list_all (\<lambda>s. enc (Some s) \<noteq> []) S"
      by (induction S) simp_all
    from element_round_trip [OF that(1) this, of t r None "\<lambda>k. None" False] same
    show ?thesis by (simp add: empty_node_def)
  qed
  then show ?thesis
    by (simp add: TextSerializer_deserialize_def TextSerializer_serialize_def set_text_def
        pop_text_def AttributeSerializer_deserialize_def AttributeSerializer_serialize_def
        set_attribute_def pop_attrib_def py_split_join)
qed

theorem round_trip_words_witness:
  "fst (TextSerializer_deserialize (Some (TextSerializer_serialize (empty_node (str ''r''))
      (Some [str ''1'', str ''22'', str ''1'']) (\<lambda>v. v) False)))
     = Some [str ''1'', str ''22'', str ''1''] \<and>
   fst (AttributeSerializer_deserialize (str ''ids'')
      (Some (AttributeSerializer_serialize (str ''ids'') (empty_node (str ''r''))
         (Some [str ''1'', str ''22'', str ''1'']) (\<lambda>v. v) False)))
     = Some [str ''1'', str ''22'', str ''1''] \<and>
   map_option fst (ElementSerializer_deserialize (scalar_element_deserialize (str ''v''))
      (Some (ElementSerializer_serialize (scalar_element_serialize (str ''v''))
         (empty_node (str ''r'')) (Some (map Some [str ''1'', str ''22'', str ''1'']))
         (\<lambda>v. case v of None \<Rightarrow> [] | Some s \<Rightarrow> s) False)))
     = Some (Some [str ''1'', str ''22'', str ''1''])"
proof -
  have w: "list_all word [str ''1'', str ''22'', str ''1'']"
    by (simp add: word_def isspace_def str_def)
  show ?thesis
    using w round_trip_words [of "[str ''1'', str ''22'', str ''1'']" "empty_node (str ''r'')"
        "str ''ids''" "\<lambda>v. case v of None \<Rightarrow> [] | Some s \<Rightarrow> s" "str ''v''" "str ''r''"]
    by (simp add: str_def)
qed

text \<open>
  Claim C5. \<open>deserialize\<close> of the Text and Attribute variants returns the popped text
  or attribute value split by \<open>str.split()\<close>, as raw strings. The split collapses runs
  of whitespace and ignores leading and trailing whitespace: when words are written one
  after the other, each behind a run of whitespace (non-empty except possibly before the
  first word) and with any whitespace after the last, the split is exactly the sequence
  of the words, whatever the lengths of the runs. In particular "a   b\tc" is split into
  "a", "b", "c".
\<close>

theorem deserialize_splits_on_whitespace:
  "(node_text e = Some s \<longrightarrow> fst (TextSerializer_deserialize (Some e)) = Some (py_split s)) \<and>
   (node_attrib e attr_name = Some s \<longrightarrow>
      fst (AttributeSerializer_deserialize attr_name (Some e)) = Some (py_split s)) \<and>
   (length seps = length ws \<and> list_all word ws \<and> list_all (list_all isspace) seps \<and>
    list_all (\<lambda>s. s \<noteq> []) (tl seps) \<and> list_all isspace trail \<longrightarrow>
      py_split (concat (map2 (@) seps ws) @ trail) = ws) \<and>
   py_split (str ''a   b'' @ [9] @ str ''c'') = [str ''a'', str ''b'', str ''c'']"
proof -
  have "py_split (str ''a   b'' @ [9] @ str ''c'') = [str ''a'', str ''b'', str ''c'']"
    by (simp add: py_split_def str_def isspace_def)
  then show ?thesis
    using py_split_separated [of seps ws trail]
    by (simp add: TextSerializer_deserialize_def AttributeSerializer_deserialize_def
        pop_text_def pop_attrib_def)
qed

theorem deserialize_splits_on_whitespace_witness:
  "fst (TextSerializer_deserialize
      (Some (Node (str ''r'') (Some (str ''a   b'' @ [9] @ str ''c'')) (\<lambda>k. None) []))) =
     Some [str ''a'', str ''b'', str ''c''] \<and>
   fst (AttributeSerializer_deserialize (str ''ids'')
      (Some (Node (str ''r'') None ((\<lambda>k. None)(str ''ids'' := Some (str ''a   b'' @ [9] @ str ''c''))) []))) =
     Some [str ''a'', str ''b'', str ''c''] \<and>
   py_split ([10, 32] @ str ''a'' @ [32, 9, 32] @ str ''b'' @ [160]) = [str ''a'', str ''b'']"
proof -
  have h: "length [[10, 32], [32, 9, 32]] = length [str ''a'', str ''b''] \<and>
      list_all word [str ''a'', str ''b''] \<and> list_all (list_all isspace) [[10, 32], [32, 9, 32]] \<and>
      list_all (\<lambda>s. s \<noteq> []) (tl [[10, 32], [32, 9, 32::nat]]) \<and> list_all isspace [160]"
    by (simp add: word_def isspace_def str_def)
  show ?thesis
    using h
      deserialize_splits_on_whitespace [of
        "Node (str ''r'') (Some (str ''a   b'' @ [9] @ str ''c'')) (\<lambda>k. None) []"
        "str ''a   b'' @ [9] @ str ''c''" "str ''none''"
        "[[10, 32], [32, 9, 32]]" "[str ''a'', str ''b'']" "[160]"]
      deserialize_splits_on_whitespace [of
        "Node (str ''r'') None ((\<lambda>k. None)(str ''ids'' := Some (str ''a   b'' @ [9] @ str ''c''))) []"
        "str ''a   b'' @ [9] @ str ''c''" "str ''ids''" "[]" "[]" "[]"]
    by simp
qed

text \<open>
  Claim C6 as stated fails for the Element variant: on a present node without children
  it yields absent, not the empty sequence.
\<close>

theorem element_deserialize_empty_counterexample:
  "map_option fst (ElementSerializer_deserialize (scalar_element_deserialize (str ''v''))
     (Some (empty_node (str ''r'')))) = Some None \<and>
   map_option fst (ElementSerializer_deserialize (scalar_element_deserialize (str ''v''))
     (Some (empty_node (str ''r'')))) \<noteq> Some (Some [])"
  using deserialize_loop_returns [of "scalar_element_deserialize (str ''v'')"
      "empty_node (str ''r'')" "[]" "empty_node (str ''r'')" "[]"]
  by (simp add: ElementSerializer_deserialize_def list_or_None_def
      scalar_element_deserialize_def pop_element_def empty_node_def)

text \<open>
  Claim C6, amended. On a present node without text, the Text variant deserializes the
  empty sequence; on a present node without the attribute, so does the Attribute
  variant; on a present node where the inner serializer finds no child, the Element
  variant deserializes absent. On an absent node all three variants yield absent.
\<close>

theorem deserialize_empty_and_absent:
  "(node_text e = None \<longrightarrow> fst (TextSerializer_deserialize (Some e)) = Some []) \<and>
   (node_attrib e attr_name = None \<longrightarrow>
      fst (AttributeSerializer_deserialize attr_name (Some e)) = Some []) \<and>
   (fst (inner_deserialize el) = None \<longrightarrow>
      map_option fst (ElementSerializer_deserialize inner_deserialize (Some el)) = Some None) \<and>
   fst (TextSerializer_deserialize None) = None \<and>
   fst (AttributeSerializer_deserialize attr_name None) = None \<and>
   map_option fst (ElementSerializer_deserialize inner_deserialize None) = Some None"
proof -
  have "map_option fst (ElementSerializer_deserialize inner_deserialize (Some el)) = Some None"
    if "fst (inner_deserialize el) = None"
  proof -
    from that have "returns_then_absent inner_deserialize el [] (snd (inner_deserialize el))"
      by (cases "inner_deserialize el") simp
    from deserialize_loop_returns [OF this, of "[]"] show ?thesis
      by (simp add: ElementSerializer_deserialize_def list_or_None_def)
  qed
  then show ?thesis
    by (simp add: TextSerializer_deserialize_def AttributeSerializer_deserialize_def
        ElementSerializer_deserialize_def pop_text_def pop_attrib_def)
qed

theorem deserialize_empty_and_absent_witness:
  "fst (TextSerializer_deserialize (Some (empty_node (str ''r'')))) = Some [] \<and>
   fst (AttributeSerializer_deserialize (str ''ids'') (Some (empty_node (str ''r'')))) = Some [] \<and>
   map_option fst (ElementSerializer_deserialize (scalar_element_deserialize (str ''v''))
     (Some (empty_node (str ''r'')))) = Some None"
  using deserialize_empty_and_absent [of "empty_node (str ''r'')" "str ''ids''"
      "scalar_element_deserialize (str ''v'')" "empty_node (str ''r'')"]
  by (simp add: empty_node_def scalar_element_deserialize_def pop_element_def)

text \<open>
  Claim C7. Given a present node from which the inner serializer's \<open>deserialize\<close>,
  called repeatedly, returns the values \<open>vs\<close> and then absent, \<open>deserialize\<close> of the
  Element variant returns: it yields \<open>vs\<close> in the order of the calls, or absent (not the
  empty sequence) when \<open>vs\<close> is empty, and leaves the node as the last call left it.
\<close>

theorem element_deserialize_accumulates:
  assumes "returns_then_absent inner_deserialize e vs e'"
  shows "ElementSerializer_deserialize inner_deserialize (Some e) =
         Some (if vs = [] then None else Some vs, Some e')"
  using deserialize_loop_returns [OF assms, of "[]"]
  by (simp add: ElementSerializer_deserialize_def list_or_None_def)

theorem element_deserialize_accumulates_witness:
  "ElementSerializer_deserialize (scalar_element_deserialize (str ''v''))
     (Some (Node (str ''r'') None (\<lambda>k. None)
        [item (str ''v'') (str ''x''), item (str ''v'') (str ''y''), item (str ''w'') (str ''z'')])) =
   Some (Some [str ''x'', str ''y''],
         Some (Node (str ''r'') None (\<lambda>k. None) [item (str ''w'') (str ''z'')]))"
  using element_deserialize_accumulates [of "scalar_element_deserialize (str ''v'')"
      "Node (str ''r'') None (\<lambda>k. None)
        [item (str ''v'') (str ''x''), item (str ''v'') (str ''y''), item (str ''w'') (str ''z'')]"
      "[str ''x'', str ''y'']"
      "Node (str ''r'') None (\<lambda>k. None) [item (str ''w'') (str ''z'')]"]
  by (simp add: scalar_element_deserialize_def pop_element_def pop_text_def item_def str_def)

text \<open>
  Claim C8. For each of the three variants, \<open>serialize\<close> called with an absent value, or
  with \<open>skip_empty\<close> set and an empty collection, returns the node it was given, with no
  text set, no attribute set and no child appended; the Element variant then never
  calls its inner serializer, whatever that serializer is.
\<close>

theorem serialize_nothing_unchanged:
  assumes "val = None \<or> (skip_empty \<and> val = Some [])"
      and "vals = None \<or> (skip_empty \<and> vals = Some [])"
  shows "TextSerializer_serialize element val encoder skip_empty = element \<and>
         AttributeSerializer_serialize attr_name element val encoder skip_empty = element \<and>
         ElementSerializer_serialize inner_serialize el vals enc skip_empty = el"
  using assms
  by (auto simp: TextSerializer_serialize_def AttributeSerializer_serialize_def
      ElementSerializer_serialize_def)

theorem serialize_nothing_unchanged_witness:
  "TextSerializer_serialize (Node (str ''a'') (Some (str ''old'')) (\<lambda>k. None) [])
     (Some []) (\<lambda>v. v) True = Node (str ''a'') (Some (str ''old'')) (\<lambda>k. None) [] \<and>
   AttributeSerializer_serialize (str ''ids'')
     (Node (str ''a'') (Some (str ''old'')) (\<lambda>k. None) [])
     (Some []) (\<lambda>v. v) True = Node (str ''a'') (Some (str ''old'')) (\<lambda>k. None) [] \<and>
   ElementSerializer_serialize (scalar_element_serialize (str ''item''))
     (empty_node (str ''a'')) (Some [])
     (\<lambda>v::py_str option. case v of None \<Rightarrow> [] | Some s \<Rightarrow> s) True = empty_node (str ''a'')"
  using serialize_nothing_unchanged [of "Some []" True "Some []"
      "Node (str ''a'') (Some (str ''old'')) (\<lambda>k. None) []" "\<lambda>v::py_str. v" "str ''ids''"
      "scalar_element_serialize (str ''item'')" "empty_node (str ''a'')"
      "\<lambda>v::py_str option. case v of None \<Rightarrow> [] | Some s \<Rightarrow> s"]
  by simp




end
